theory Spec2Isabelle
  imports Main
begin

section \<open>Values of the client (dalle.go)\<close>

text \<open>
  A Go slice is either nil or a sequence; the two are kept apart, because the
  operations return \<open>nil\<close> on every error path and the decoded slice otherwise.
\<close>

type_synonym 'a slice = "'a list option"

text \<open>
  A pointer to an int or to a string (\<open>*int\<close>, \<open>*string\<close>): nil, or an address together
  with the value stored there. No operation writes through these pointers, so the
  pointee is carried with the address.
\<close>

datatype 'a ptr = NilPtr | Ptr nat 'a

fun uintptr :: "'a ptr \<Rightarrow> nat" where
  "uintptr NilPtr = 0"
| "uintptr (Ptr a v) = a"

text \<open>
  An open file (\<open>os.File\<close>) is read through its handle: \<open>pending\<close> are the bytes a
  reader still gets before the end of the file, \<open>failure\<close> is the read error met after
  them, if any. A \<open>*os.File\<close> is nil or a handle into the store of open files.
\<close>

record os_File =
  Name :: string
  pending :: string
  failure :: "string option"

type_synonym file_ptr = "nat option"

text \<open>
  Error values, kept apart by where they are made: \<open>errors.New\<close> in dalle.go, encoding/json,
  \<open>http.NewRequest\<close>, the HTTP transport, a file read.
\<close>

datatype error =
    errors_New string
  | json_error string
  | url_error string
  | transport_error string
  | read_error string

text \<open>Lines 15-26: the sizes and the defaults.\<close>

definition Small :: int where "Small = 256"
definition Medium :: int where "Medium = 512"
definition Large :: int where "Large = 1024"

definition defaultBaseURL :: string where
  "defaultBaseURL = ''https://api.openai.com/v1/images''"

definition defaultUserAgent :: string where
  "defaultUserAgent = ''go-dalle''"

definition defaultTimeout :: nat where
  "defaultTimeout = 30"

text \<open>Lines 28-35: the response envelope.\<close>

record Datum =
  URL :: string

record Response =
  Created :: int
  Data :: "Datum slice"

text \<open>Lines 42-48: the JSON request of Generate.\<close>

record GenerateRequest =
  Prompt :: string
  N :: "int ptr"
  Size :: "string ptr"
  ResponseFormat :: "string ptr"
  User :: "string ptr"

text \<open>Lines 56-76: the client and its constructor.\<close>

record http_Client =
  Timeout :: nat

record client =
  baseURL :: string
  apiKey :: string
  userAgent :: string
  httpClient :: http_Client

definition NewClient :: "string \<Rightarrow> client" where
  "NewClient key =
     \<lparr>baseURL = defaultBaseURL, apiKey = key, userAgent = defaultUserAgent,
      httpClient = \<lparr>Timeout = defaultTimeout\<rparr>\<rparr>"

section \<open>The library functions the client calls\<close>

subsection \<open>fmt.Sprintf with the verb %d\<close>

text \<open>
  \<open>%d\<close> prints an integer argument in decimal, and a pointer argument as its address in
  decimal (fmt prints a pointer under \<open>%d\<close> as the unsigned integer value of the address).
\<close>

datatype arg = IntArg int | PointerArg nat

fun decimal :: "nat \<Rightarrow> string" where
  "decimal n =
     (if n < 10 then [''0123456789'' ! n]
      else decimal (n div 10) @ [''0123456789'' ! (n mod 10)])"

declare decimal.simps [simp del]

fun fmt_d :: "arg \<Rightarrow> string" where
  "fmt_d (IntArg i) = (if i < 0 then CHR ''-'' # decimal (nat (- i)) else decimal (nat i))"
| "fmt_d (PointerArg a) = decimal a"

definition Sprintf_d :: "arg \<Rightarrow> string" where
  "Sprintf_d a = fmt_d a"

definition Sprintf_dxd :: "arg \<Rightarrow> arg \<Rightarrow> string" where
  "Sprintf_dxd a b = fmt_d a @ ''x'' @ fmt_d b"

subsection \<open>encoding/json on GenerateRequest\<close>

text \<open>
  The request body as a JSON value. A field tagged \<open>omitempty\<close> whose pointer is nil is
  left out; a non-nil pointer is followed, so \<open>*int\<close> gives a number and \<open>*string\<close> a
  string. Marshalling this struct has no failing case.
\<close>

datatype json = JString string | JNumber int | JObject "(string \<times> json) list"

fun omitempty :: "string \<Rightarrow> ('a \<Rightarrow> json) \<Rightarrow> 'a ptr \<Rightarrow> (string \<times> json) list" where
  "omitempty key enc NilPtr = []"
| "omitempty key enc (Ptr a v) = [(key, enc v)]"

definition json_Marshal :: "GenerateRequest \<Rightarrow> json \<times> error option" where
  "json_Marshal r =
     (JObject ([(''prompt'', JString (Prompt r))]
        @ omitempty ''n'' JNumber (N r)
        @ omitempty ''size'' JString (Size r)
        @ omitempty ''response_format'' JString (ResponseFormat r)
        @ omitempty ''user'' JString (User r)), None)"

fun json_field :: "string \<Rightarrow> json \<Rightarrow> json option" where
  "json_field key (JObject kvs) = map_of kvs key"
| "json_field key (JString s) = None"
| "json_field key (JNumber i) = None"

subsection \<open>mime/multipart: the form writer over a bytes.Buffer\<close>

text \<open>
  The buffer the writer fills is kept as the document written so far, in the order it
  was written: a file part (field name, file name, content), a field (name, value), and
  the trailer, which is the closing boundary line that \<open>Close\<close> writes.
  Writes into a bytes.Buffer do not fail, so each function returns a nil error.
\<close>

datatype part = FormFile string string string | FormField string string | Trailer

record Writer =
  boundary :: string
  parts :: "part list"

definition NewWriter :: "string \<Rightarrow> Writer" where
  "NewWriter b = \<lparr>boundary = b, parts = []\<rparr>"

definition CreateFormFile :: "Writer \<Rightarrow> string \<Rightarrow> string \<Rightarrow> Writer \<times> error option" where
  "CreateFormFile w fieldname filename =
     (w\<lparr>parts := parts w @ [FormFile fieldname filename []]\<rparr>, None)"

definition WriteField :: "Writer \<Rightarrow> string \<Rightarrow> string \<Rightarrow> Writer \<times> error option" where
  "WriteField w fieldname v = (w\<lparr>parts := parts w @ [FormField fieldname v]\<rparr>, None)"

definition Close :: "Writer \<Rightarrow> Writer \<times> error option" where
  "Close w = (w\<lparr>parts := parts w @ [Trailer]\<rparr>, None)"

definition FormDataContentType :: "Writer \<Rightarrow> string" where
  "FormDataContentType w =
     (let b = boundary w;
          b = (if list_ex (\<lambda>ch. ch \<in> set ''()<>@,;:/[]?= '' \<or> ch = CHR 0x5C \<or> ch = CHR 0x22) b
               then CHR 0x22 # b @ [CHR 0x22] else b)
      in ''multipart/form-data; boundary='' @ b)"

fun part_Write :: "part \<Rightarrow> string \<Rightarrow> part" where
  "part_Write (FormFile fieldname filename content) bs = FormFile fieldname filename (content @ bs)"
| "part_Write (FormField fieldname v) bs = FormField fieldname (v @ bs)"
| "part_Write Trailer bs = Trailer"

definition Write_last :: "Writer \<Rightarrow> string \<Rightarrow> Writer" where
  "Write_last w bs =
     (case rev (parts w) of
        [] \<Rightarrow> w
      | p # ps \<Rightarrow> w\<lparr>parts := rev ps @ [part_Write p bs]\<rparr>)"

subsection \<open>net/http\<close>

datatype body = JSONBody json | FormBody Writer

record Request =
  Method :: string
  reqURL :: string
  Header :: "(string \<times> string) list"
  reqBody :: body

record http_Response =
  StatusCode :: int
  respBody :: string

fun header_set :: "string \<Rightarrow> string \<Rightarrow> (string \<times> string) list \<Rightarrow> (string \<times> string) list" where
  "header_set k v [] = [(k, v)]"
| "header_set k v ((k', v') # h) =
     (if k' = k then (k, v) # h else (k', v') # header_set k v h)"

definition Header_Set :: "Request \<Rightarrow> string \<Rightarrow> string \<Rightarrow> Request" where
  "Header_Set req k v = req\<lparr>Header := header_set k v (Header req)\<rparr>"

text \<open>
  What the run of an operation depends on and is not in dalle.go: the boundary the form
  writer draws, the address of the next variable that is allocated, whether \<open>http.NewRequest\<close>
  accepts a URL, what the transport answers to a request, and what the JSON decoder
  makes of a response body (an error message, or the envelope).
\<close>

record env =
  randomBoundary :: string
  freshAddr :: nat
  url_Parse :: "string \<Rightarrow> string option"
  roundTrip :: "Request \<Rightarrow> string + http_Response"
  jsonDecode :: "string \<Rightarrow> string + Response"

text \<open>
  The effects of a run: the open files, and the trace of what reached the transport
  and the decoder (a request sent, a response body decoded, a response body closed).
\<close>

datatype event = Do Request | Decode string | BodyClose

record state =
  files :: "nat \<Rightarrow> os_File"
  trace :: "event list"

definition http_NewRequest :: "env \<Rightarrow> string \<Rightarrow> string \<Rightarrow> body \<Rightarrow> error + Request" where
  "http_NewRequest e method url b =
     (case url_Parse e url of
        Some msg \<Rightarrow> Inl (url_error msg)
      | None \<Rightarrow> Inr \<lparr>Method = method, reqURL = url, Header = [], reqBody = b\<rparr>)"

definition httpClient_Do :: "env \<Rightarrow> state \<Rightarrow> Request \<Rightarrow> (error + http_Response) \<times> state" where
  "httpClient_Do e st req =
     (case roundTrip e req of
        Inl msg \<Rightarrow> (Inl (transport_error msg), st\<lparr>trace := trace st @ [Do req]\<rparr>)
      | Inr resp \<Rightarrow> (Inr resp, st\<lparr>trace := trace st @ [Do req]\<rparr>))"

definition Body_Close :: "state \<Rightarrow> state" where
  "Body_Close st = st\<lparr>trace := trace st @ [BodyClose]\<rparr>"

definition Decoder_Decode :: "env \<Rightarrow> state \<Rightarrow> string \<Rightarrow> (error + Response) \<times> state" where
  "Decoder_Decode e st bs =
     (case jsonDecode e bs of
        Inl msg \<Rightarrow> (Inl (json_error msg), st\<lparr>trace := trace st @ [Decode bs]\<rparr>)
      | Inr response \<Rightarrow> (Inr response, st\<lparr>trace := trace st @ [Decode bs]\<rparr>))"

subsection \<open>io.Copy from a file into the part just created\<close>

text \<open>
  \<open>io.Copy\<close> reads the file from where its offset stands to the end and writes what it
  read into the part; the file is left at its end. A read error is returned after the
  bytes read before it.
\<close>

definition io_Copy :: "Writer \<Rightarrow> state \<Rightarrow> nat \<Rightarrow> Writer \<times> state \<times> error option" where
  "io_Copy w st h =
     (let f = files st h
      in (Write_last w (pending f),
          st\<lparr>files := (files st)(h := f\<lparr>pending := []\<rparr>)\<rparr>,
          map_option read_error (failure f)))"

section \<open>The three operations\<close>

definition pointerizeString :: "env \<Rightarrow> string \<Rightarrow> string ptr" where
  "pointerizeString e s = Ptr (freshAddr e) s"

text \<open>Lines 130-153, 271-294 and 398-421: the status switch, once per operation.\<close>

definition Generate_status :: "int \<Rightarrow> error" where
  "Generate_status code =
     (if code = 400 then errors_New ''bad request''
      else if code = 401 then errors_New ''unauthorized''
      else if code = 403 then errors_New ''forbidden''
      else if code = 404 then errors_New ''not found''
      else if code = 429 then errors_New ''too many requests''
      else if code = 500 then errors_New ''internal server error''
      else if code = 502 then errors_New ''bad gateway''
      else if code = 503 then errors_New ''service unavailable''
      else if code = 504 then errors_New ''gateway timeout''
      else errors_New ''unknown error'')"

definition Edit_status :: "int \<Rightarrow> error" where
  "Edit_status code =
     (if code = 400 then errors_New ''bad request''
      else if code = 401 then errors_New ''unauthorized''
      else if code = 403 then errors_New ''forbidden''
      else if code = 404 then errors_New ''not found''
      else if code = 429 then errors_New ''too many requests''
      else if code = 500 then errors_New ''internal server error''
      else if code = 502 then errors_New ''bad gateway''
      else if code = 503 then errors_New ''service unavailable''
      else if code = 504 then errors_New ''gateway timeout''
      else errors_New ''unknown error'')"

definition Variation_status :: "int \<Rightarrow> error" where
  "Variation_status code =
     (if code = 400 then errors_New ''bad request''
      else if code = 401 then errors_New ''unauthorized''
      else if code = 403 then errors_New ''forbidden''
      else if code = 404 then errors_New ''not found''
      else if code = 429 then errors_New ''too many requests''
      else if code = 500 then errors_New ''internal server error''
      else if code = 502 then errors_New ''bad gateway''
      else if code = 503 then errors_New ''service unavailable''
      else if code = 504 then errors_New ''gateway timeout''
      else errors_New ''unknown error'')"

text \<open>Lines 89-164.\<close>

definition Generate ::
  "client \<Rightarrow> env \<Rightarrow> state \<Rightarrow> string \<Rightarrow> int ptr \<Rightarrow> int ptr \<Rightarrow> string ptr \<Rightarrow> string ptr
     \<Rightarrow> (Datum slice \<times> error option) \<times> state" where
  "Generate c e st prompt size' n user responseType =
     (let url = baseURL c @ ''/generations'';
          sizeStr = (if size' \<noteq> NilPtr
                     then pointerizeString e
                            (Sprintf_dxd (PointerArg (uintptr size')) (PointerArg (uintptr size')))
                     else NilPtr);
          body = \<lparr>Prompt = prompt, N = n, Size = sizeStr,
                  ResponseFormat = responseType, User = user\<rparr>
      in case json_Marshal body of
           (jsonStr, Some err) \<Rightarrow> ((None, Some err), st)
         | (jsonStr, None) \<Rightarrow>
      (case http_NewRequest e ''POST'' url (JSONBody jsonStr) of
           Inl err \<Rightarrow> ((None, Some err), st)
         | Inr req \<Rightarrow>
      (let req = Header_Set req ''Authorization'' (''Bearer '' @ apiKey c);
           req = Header_Set req ''User-Agent'' (userAgent c);
           req = Header_Set req ''Content-Type'' ''application/json''
       in case httpClient_Do e st req of
           (Inl err, st) \<Rightarrow> ((None, Some err), st)
         | (Inr resp, st) \<Rightarrow>
       if StatusCode resp \<noteq> 200
       then ((None, Some (Generate_status (StatusCode resp))), Body_Close st)
       else (case Decoder_Decode e st (respBody resp) of
           (Inl err, st) \<Rightarrow> ((None, Some err), Body_Close st)
         | (Inr response, st) \<Rightarrow> ((Data response, None), Body_Close st)))))"

text \<open>Lines 177-305.\<close>

definition Edit ::
  "client \<Rightarrow> env \<Rightarrow> state \<Rightarrow> string \<Rightarrow> file_ptr \<Rightarrow> file_ptr
     \<Rightarrow> int ptr \<Rightarrow> int ptr \<Rightarrow> string ptr \<Rightarrow> string ptr
     \<Rightarrow> (Datum slice \<times> error option) \<times> state" where
  "Edit c e st prompt image' mask' size' n user responseType =
     (let url = baseURL c @ ''/edits'';
          w = NewWriter (randomBoundary e)
      in case image' of
           None \<Rightarrow> ((None, Some (errors_New ''image is nil'')), st)
         | Some img \<Rightarrow>
      (case mask' of
           None \<Rightarrow> ((None, Some (errors_New ''mask is nil'')), st)
         | Some msk \<Rightarrow>
      (case CreateFormFile w ''image'' (Name (files st img)) of
           (w, Some err) \<Rightarrow> ((None, Some err), st)
         | (w, None) \<Rightarrow>
      (case io_Copy w st img of
           (w, st, Some err) \<Rightarrow> ((None, Some err), st)
         | (w, st, None) \<Rightarrow>
      (case CreateFormFile w ''mask'' (Name (files st msk)) of
           (w, Some err) \<Rightarrow> ((None, Some err), st)
         | (w, None) \<Rightarrow>
      (case io_Copy w st msk of
           (w, st, Some err) \<Rightarrow> ((None, Some err), st)
         | (w, st, None) \<Rightarrow>
      (let sizeStr = (if size' \<noteq> NilPtr
                      then pointerizeString e
                             (Sprintf_dxd (PointerArg (uintptr size')) (PointerArg (uintptr size')))
                      else NilPtr)
       in case WriteField w ''prompt'' prompt of
           (w, Some err) \<Rightarrow> ((None, Some err), st)
         | (w, None) \<Rightarrow>
      (case (if n \<noteq> NilPtr then WriteField w ''n'' (Sprintf_d (PointerArg (uintptr n)))
             else (w, None)) of
           (w, Some err) \<Rightarrow> ((None, Some err), st)
         | (w, None) \<Rightarrow>
      (case (case sizeStr of NilPtr \<Rightarrow> (w, None) | Ptr a s \<Rightarrow> WriteField w ''size'' s) of
           (w, Some err) \<Rightarrow> ((None, Some err), st)
         | (w, None) \<Rightarrow>
      (case (case user of NilPtr \<Rightarrow> (w, None) | Ptr a s \<Rightarrow> WriteField w ''user'' s) of
           (w, Some err) \<Rightarrow> ((None, Some err), st)
         | (w, None) \<Rightarrow>
      (case (case responseType of NilPtr \<Rightarrow> (w, None)
               | Ptr a s \<Rightarrow> WriteField w ''response_format'' s) of
           (w, Some err) \<Rightarrow> ((None, Some err), st)
         | (w, None) \<Rightarrow>
      (case Close w of
           (w, Some err) \<Rightarrow> ((None, Some err), st)
         | (w, None) \<Rightarrow>
      (case http_NewRequest e ''POST'' url (FormBody w) of
           Inl err \<Rightarrow> ((None, Some err), st)
         | Inr req \<Rightarrow>
      (let req = Header_Set req ''Authorization'' (''Bearer '' @ apiKey c);
           req = Header_Set req ''User-Agent'' (userAgent c);
           req = Header_Set req ''Content-Type'' (FormDataContentType w)
       in case httpClient_Do e st req of
           (Inl err, st) \<Rightarrow> ((None, Some err), st)
         | (Inr resp, st) \<Rightarrow>
       if StatusCode resp \<noteq> 200
       then ((None, Some (Edit_status (StatusCode resp))), Body_Close st)
       else (case Decoder_Decode e st (respBody resp) of
           (Inl err, st) \<Rightarrow> ((None, Some err), Body_Close st)
         | (Inr response, st) \<Rightarrow> ((Data response, None), Body_Close st))))))))))))))))"

text \<open>Lines 314-432.\<close>

definition Variation ::
  "client \<Rightarrow> env \<Rightarrow> state \<Rightarrow> file_ptr \<Rightarrow> int ptr \<Rightarrow> int ptr \<Rightarrow> string ptr \<Rightarrow> string ptr
     \<Rightarrow> (Datum slice \<times> error option) \<times> state" where
  "Variation c e st image' size' n user responseType =
     (let url = baseURL c @ ''/variations'';
          w = NewWriter (randomBoundary e)
      in case image' of
           None \<Rightarrow> ((None, Some (errors_New ''image is nil'')), st)
         | Some img \<Rightarrow>
      (case CreateFormFile w ''image'' (Name (files st img)) of
           (w, Some err) \<Rightarrow> ((None, Some err), st)
         | (w, None) \<Rightarrow>
      (case io_Copy w st img of
           (w, st, Some err) \<Rightarrow> ((None, Some err), st)
         | (w, st, None) \<Rightarrow>
      (let sizeStr = (if size' \<noteq> NilPtr
                      then pointerizeString e
                             (Sprintf_dxd (PointerArg (uintptr size')) (PointerArg (uintptr size')))
                      else NilPtr)
       in case (if n \<noteq> NilPtr then WriteField w ''n'' (Sprintf_d (PointerArg (uintptr n)))
                else (w, None)) of
           (w, Some err) \<Rightarrow> ((None, Some err), st)
         | (w, None) \<Rightarrow>
      (case (case sizeStr of NilPtr \<Rightarrow> (w, None) | Ptr a s \<Rightarrow> WriteField w ''size'' s) of
           (w, Some err) \<Rightarrow> ((None, Some err), st)
         | (w, None) \<Rightarrow>
      (case (case user of NilPtr \<Rightarrow> (w, None) | Ptr a s \<Rightarrow> WriteField w ''user'' s) of
           (w, Some err) \<Rightarrow> ((None, Some err), st)
         | (w, None) \<Rightarrow>
      (case (case responseType of NilPtr \<Rightarrow> (w, None)
               | Ptr a s \<Rightarrow> WriteField w ''response_format'' s) of
           (w, Some err) \<Rightarrow> ((None, Some err), st)
         | (w, None) \<Rightarrow>
      (case Close w of
           (w, Some err) \<Rightarrow> ((None, Some err), st)
         | (w, None) \<Rightarrow>
      (case http_NewRequest e ''POST'' url (FormBody w) of
           Inl err \<Rightarrow> ((None, Some err), st)
         | Inr req \<Rightarrow>
      (let req = Header_Set req ''Authorization'' (''Bearer '' @ apiKey c);
           req = Header_Set req ''User-Agent'' (userAgent c);
           req = Header_Set req ''Content-Type'' (FormDataContentType w)
       in case httpClient_Do e st req of
           (Inl err, st) \<Rightarrow> ((None, Some err), st)
         | (Inr resp, st) \<Rightarrow>
       if StatusCode resp \<noteq> 200
       then ((None, Some (Variation_status (StatusCode resp))), Body_Close st)
       else (case Decoder_Decode e st (respBody resp) of
           (Inl err, st) \<Rightarrow> ((None, Some err), Body_Close st)
         | (Inr response, st) \<Rightarrow> ((Data response, None), Body_Close st))))))))))))"

section \<open>Reading a run\<close>

text \<open>
  The events a run added to the trace, and the two questions asked of them: was this
  request sent, and was a response body handed to the decoder.
\<close>

definition events :: "state \<Rightarrow> state \<Rightarrow> event list" where
  "events st st' = drop (length (trace st)) (trace st')"

definition sent :: "state \<Rightarrow> state \<Rightarrow> Request \<Rightarrow> bool" where
  "sent st st' req = (Do req \<in> set (events st st'))"

fun is_Do :: "event \<Rightarrow> bool" where
  "is_Do (Do req) = True"
| "is_Do (Decode bs) = False"
| "is_Do BodyClose = False"

fun is_Decode :: "event \<Rightarrow> bool" where
  "is_Decode (Decode bs) = True"
| "is_Decode (Do req) = False"
| "is_Decode BodyClose = False"

definition network_call :: "state \<Rightarrow> state \<Rightarrow> bool" where
  "network_call st st' = list_ex is_Do (events st st')"

definition body_parsed :: "state \<Rightarrow> state \<Rightarrow> bool" where
  "body_parsed st st' = list_ex is_Decode (events st st')"

section \<open>The shape of a run\<close>

text \<open>
  What every operation does once its request is built (send it, switch on the status,
  decode), written once with the operation's own status switch as a parameter, and the
  form each of Edit and Variation has written when it closes the writer. The operations
  above are shown to run this way; the properties are stated on the operations.
\<close>

definition finish :: "(int \<Rightarrow> error) \<Rightarrow> env \<Rightarrow> state \<Rightarrow> Request
     \<Rightarrow> (Datum slice \<times> error option) \<times> state" where
  "finish status e st req =
     (case roundTrip e req of
        Inl msg \<Rightarrow> ((None, Some (transport_error msg)), st\<lparr>trace := trace st @ [Do req]\<rparr>)
      | Inr resp \<Rightarrow>
          if StatusCode resp \<noteq> 200
          then ((None, Some (status (StatusCode resp))),
                st\<lparr>trace := trace st @ [Do req, BodyClose]\<rparr>)
          else (case jsonDecode e (respBody resp) of
                  Inl msg \<Rightarrow> ((None, Some (json_error msg)),
                     st\<lparr>trace := trace st @ [Do req, Decode (respBody resp), BodyClose]\<rparr>)
                | Inr response \<Rightarrow> ((Data response, None),
                     st\<lparr>trace := trace st @ [Do req, Decode (respBody resp), BodyClose]\<rparr>)))"

definition request_of :: "client \<Rightarrow> string \<Rightarrow> string \<Rightarrow> body \<Rightarrow> Request" where
  "request_of c url ctype b =
     \<lparr>Method = ''POST'', reqURL = url,
      Header = [(''Authorization'', ''Bearer '' @ apiKey c), (''User-Agent'', userAgent c),
                (''Content-Type'', ctype)],
      reqBody = b\<rparr>"

definition optional_fields :: "env \<Rightarrow> int ptr \<Rightarrow> int ptr \<Rightarrow> string ptr \<Rightarrow> string ptr \<Rightarrow> part list" where
  "optional_fields e size' n user responseType =
     (if n \<noteq> NilPtr then [FormField ''n'' (decimal (uintptr n))] else [])
     @ (if size' \<noteq> NilPtr
        then [FormField ''size'' (decimal (uintptr size') @ ''x'' @ decimal (uintptr size'))]
        else [])
     @ (case user of NilPtr \<Rightarrow> [] | Ptr a s \<Rightarrow> [FormField ''user'' s])
     @ (case responseType of NilPtr \<Rightarrow> [] | Ptr a s \<Rightarrow> [FormField ''response_format'' s])"

definition consume :: "state \<Rightarrow> nat \<Rightarrow> state" where
  "consume st h = st\<lparr>files := (files st)(h := (files st h)\<lparr>pending := []\<rparr>)\<rparr>"



section \<open>A stub transport and test data\<close>

text \<open>
  A transport that answers every request with one status code and one body, a decoder
  that knows three bodies (an empty object, an envelope with an empty \<open>data\<close> array, the
  envelope of the test data) and rejects every other, and two open files.
\<close>

definition quoted :: "string \<Rightarrow> string" where
  "quoted s = CHR 0x22 # s @ [CHR 0x22]"

definition empty_data_body :: string where
  "empty_data_body = ''{'' @ quoted ''created'' @ '':1,'' @ quoted ''data'' @ '':[]}''"

definition sample_body :: string where
  "sample_body =
     ''{'' @ quoted ''created'' @ '':1,'' @ quoted ''data'' @ '':[{'' @ quoted ''url'' @ '':''
       @ quoted ''http://example/x.png'' @ ''}]}''"

definition stub_Decode :: "string \<Rightarrow> string + Response" where
  "stub_Decode bs =
     (if bs = ''{}'' then Inr \<lparr>Created = 0, Data = None\<rparr>
      else if bs = empty_data_body then Inr \<lparr>Created = 1, Data = Some []\<rparr>
      else if bs = sample_body
        then Inr \<lparr>Created = 1, Data = Some [\<lparr>URL = ''http://example/x.png''\<rparr>]\<rparr>
      else Inl ''invalid character'')"

definition stub_env :: "int \<Rightarrow> string \<Rightarrow> env" where
  "stub_env code bs =
     \<lparr>randomBoundary = ''4f1c2a'', freshAddr = 824633794560, url_Parse = (\<lambda>u. None),
      roundTrip = (\<lambda>req. Inr \<lparr>StatusCode = code, respBody = bs\<rparr>),
      jsonDecode = stub_Decode\<rparr>"

definition stub_files :: "nat \<Rightarrow> os_File" where
  "stub_files h =
     (if h = 1 then \<lparr>Name = ''image_edit_original.png'', pending = ''PNG-a'', failure = None\<rparr>
      else if h = 2 then \<lparr>Name = ''image_edit_mask.png'', pending = ''PNG-m'', failure = None\<rparr>
      else \<lparr>Name = ''gone.png'', pending = [], failure = Some ''file already closed''\<rparr>)"

definition stub_state :: state where
  "stub_state = \<lparr>files = stub_files, trace = []\<rparr>"

section \<open>Each operation runs in the shape above\<close>

lemma Generate_tail:
  "(case httpClient_Do e st req of
      (Inl err, st) \<Rightarrow> ((None, Some err), st)
    | (Inr resp, st) \<Rightarrow>
        if StatusCode resp \<noteq> 200
        then ((None, Some (Generate_status (StatusCode resp))), Body_Close st)
        else (case Decoder_Decode e st (respBody resp) of
                (Inl err, st) \<Rightarrow> ((None, Some err), Body_Close st)
              | (Inr response, st) \<Rightarrow> ((Data response, None), Body_Close st)))
   = finish Generate_status e st req"
  by (simp add: finish_def httpClient_Do_def Decoder_Decode_def Body_Close_def split: sum.splits)

lemma Edit_tail:
  "(case httpClient_Do e st req of
      (Inl err, st) \<Rightarrow> ((None, Some err), st)
    | (Inr resp, st) \<Rightarrow>
        if StatusCode resp \<noteq> 200
        then ((None, Some (Edit_status (StatusCode resp))), Body_Close st)
        else (case Decoder_Decode e st (respBody resp) of
                (Inl err, st) \<Rightarrow> ((None, Some err), Body_Close st)
              | (Inr response, st) \<Rightarrow> ((Data response, None), Body_Close st)))
   = finish Edit_status e st req"
  by (simp add: finish_def httpClient_Do_def Decoder_Decode_def Body_Close_def split: sum.splits)

lemma Variation_tail:
  "(case httpClient_Do e st req of
      (Inl err, st) \<Rightarrow> ((None, Some err), st)
    | (Inr resp, st) \<Rightarrow>
        if StatusCode resp \<noteq> 200
        then ((None, Some (Variation_status (StatusCode resp))), Body_Close st)
        else (case Decoder_Decode e st (respBody resp) of
                (Inl err, st) \<Rightarrow> ((None, Some err), Body_Close st)
              | (Inr response, st) \<Rightarrow> ((Data response, None), Body_Close st)))
   = finish Variation_status e st req"
  by (simp add: finish_def httpClient_Do_def Decoder_Decode_def Body_Close_def split: sum.splits)

lemma Generate_run:
  "Generate c e st prompt size' n user rt =
     (case url_Parse e (baseURL c @ ''/generations'') of
        Some msg \<Rightarrow> ((None, Some (url_error msg)), st)
      | None \<Rightarrow>
          finish Generate_status e st
            (request_of c (baseURL c @ ''/generations'') ''application/json''
               (JSONBody (JObject ([(''prompt'', JString prompt)]
                  @ omitempty ''n'' JNumber n
                  @ (if size' \<noteq> NilPtr
                     then [(''size'', JString (decimal (uintptr size') @ ''x'' @ decimal (uintptr size')))]
                     else [])
                  @ omitempty ''response_format'' JString rt
                  @ omitempty ''user'' JString user)))))"
  unfolding Generate_def Let_def Generate_tail
  by (simp add: json_Marshal_def http_NewRequest_def Header_Set_def request_of_def
        pointerizeString_def Sprintf_dxd_def split: option.splits)

lemma Edit_run:
  "Edit c e st prompt (Some img) (Some msk) size' n user rt =
     (case failure (files st img) of
        Some msg \<Rightarrow> ((None, Some (read_error msg)), consume st img)
      | None \<Rightarrow>
     (case failure (files (consume st img) msk) of
        Some msg \<Rightarrow> ((None, Some (read_error msg)), consume (consume st img) msk)
      | None \<Rightarrow>
     (case url_Parse e (baseURL c @ ''/edits'') of
        Some msg \<Rightarrow> ((None, Some (url_error msg)), consume (consume st img) msk)
      | None \<Rightarrow>
          finish Edit_status e (consume (consume st img) msk)
            (request_of c (baseURL c @ ''/edits'')
               (FormDataContentType (NewWriter (randomBoundary e)))
               (FormBody \<lparr>boundary = randomBoundary e,
                  parts = [FormFile ''image'' (Name (files st img)) (pending (files st img)),
                           FormFile ''mask'' (Name (files (consume st img) msk))
                              (pending (files (consume st img) msk)),
                           FormField ''prompt'' prompt]
                          @ optional_fields e size' n user rt @ [Trailer]\<rparr>)))))"
  unfolding Edit_def Let_def Edit_tail
  by (simp add: http_NewRequest_def Header_Set_def request_of_def consume_def
        pointerizeString_def Sprintf_dxd_def Sprintf_d_def NewWriter_def CreateFormFile_def
        WriteField_def Close_def FormDataContentType_def Write_last_def io_Copy_def
        optional_fields_def Let_def
        split: option.splits ptr.splits)

lemma Variation_run:
  "Variation c e st (Some img) size' n user rt =
     (case failure (files st img) of
        Some msg \<Rightarrow> ((None, Some (read_error msg)), consume st img)
      | None \<Rightarrow>
     (case url_Parse e (baseURL c @ ''/variations'') of
        Some msg \<Rightarrow> ((None, Some (url_error msg)), consume st img)
      | None \<Rightarrow>
          finish Variation_status e (consume st img)
            (request_of c (baseURL c @ ''/variations'')
               (FormDataContentType (NewWriter (randomBoundary e)))
               (FormBody \<lparr>boundary = randomBoundary e,
                  parts = [FormFile ''image'' (Name (files st img)) (pending (files st img))]
                          @ optional_fields e size' n user rt @ [Trailer]\<rparr>))))"
  unfolding Variation_def Let_def Variation_tail
  by (simp add: http_NewRequest_def Header_Set_def request_of_def consume_def
        pointerizeString_def Sprintf_dxd_def Sprintf_d_def NewWriter_def CreateFormFile_def
        WriteField_def Close_def FormDataContentType_def Write_last_def io_Copy_def
        optional_fields_def Let_def
        split: option.splits ptr.splits)

subsection \<open>What a run leaves in the trace\<close>

lemma trace_consume: "trace (consume st h) = trace st"
  by (simp add: consume_def)

lemma events_same: "events st st = []"
  by (simp add: events_def)

lemma events_consume: "events st (consume st' h) = events st st'"
  by (simp add: events_def consume_def)

lemma events_finish:
  "trace st0 = trace st \<Longrightarrow>
   events st0 (snd (finish status e st req)) =
     (case roundTrip e req of
        Inl msg \<Rightarrow> [Do req]
      | Inr resp \<Rightarrow>
          if StatusCode resp \<noteq> 200 then [Do req, BodyClose]
          else [Do req, Decode (respBody resp), BodyClose])"
  by (simp add: finish_def events_def split: sum.splits)

lemma sent_finish:
  "trace st0 = trace st \<Longrightarrow> sent st0 (snd (finish status e st req)) req' = (req' = req)"
  by (auto simp: sent_def events_finish split: sum.splits)

lemma network_call_finish:
  "trace st0 = trace st \<Longrightarrow> network_call st0 (snd (finish status e st req))"
  by (simp add: network_call_def events_finish split: sum.splits)

lemma body_parsed_finish:
  "trace st0 = trace st \<Longrightarrow> roundTrip e req = Inr resp \<Longrightarrow>
   body_parsed st0 (snd (finish status e st req)) = (StatusCode resp = 200)"
  by (simp add: body_parsed_def events_finish)

lemma fst_finish_status:
  "roundTrip e req = Inr resp \<Longrightarrow> StatusCode resp \<noteq> 200 \<Longrightarrow>
   fst (finish status e st req) = (None, Some (status (StatusCode resp)))"
  by (simp add: finish_def)

lemma fst_finish_decode:
  "roundTrip e req = Inr resp \<Longrightarrow> StatusCode resp = 200 \<Longrightarrow>
   fst (finish status e st req) =
     (case jsonDecode e (respBody resp) of
        Inl msg \<Rightarrow> (None, Some (json_error msg))
      | Inr response \<Rightarrow> (Data response, None))"
  by (simp add: finish_def split: sum.splits)

lemma finish_never_both:
  "snd (fst (finish status e st req)) = None \<or> fst (fst (finish status e st req)) = None"
  by (simp add: finish_def split: sum.splits)

lemma not_sent_same: "\<not> sent st st req"
  by (simp add: sent_def events_same)

lemma not_sent_consume: "\<not> sent st (consume st h) req"
  by (simp add: sent_def events_consume events_same)

lemma not_sent_consume2: "\<not> sent st (consume (consume st h) h') req"
  by (simp add: sent_def events_consume events_same)

lemma network_call_same: "\<not> network_call st st"
  by (simp add: network_call_def events_same)

subsection \<open>The nil checks\<close>

lemma Edit_nil_image:
  "Edit c e st prompt None mask' size' n user rt = ((None, Some (errors_New ''image is nil'')), st)"
  by (simp add: Edit_def)

lemma Edit_nil_mask:
  "Edit c e st prompt (Some img) None size' n user rt = ((None, Some (errors_New ''mask is nil'')), st)"
  by (simp add: Edit_def)

lemma Variation_nil_image:
  "Variation c e st None size' n user rt = ((None, Some (errors_New ''image is nil'')), st)"
  by (simp add: Variation_def)

subsection \<open>A request that was sent fixes the rest of the run\<close>

lemma Generate_sent:
  assumes "sent st (snd (Generate c e st prompt size' n user rt)) req"
  shows "\<exists>st1. trace st1 = trace st
           \<and> Generate c e st prompt size' n user rt = finish Generate_status e st1 req"
proof (cases "url_Parse e (baseURL c @ ''/generations'')")
  case None
  with assms show ?thesis
    by (auto simp: Generate_run sent_finish)
next
  case (Some msg)
  with assms show ?thesis
    by (simp add: Generate_run not_sent_same)
qed

lemma Edit_sent:
  assumes "sent st (snd (Edit c e st prompt image' mask' size' n user rt)) req"
  shows "\<exists>st1. trace st1 = trace st
           \<and> Edit c e st prompt image' mask' size' n user rt = finish Edit_status e st1 req"
proof (cases image')
  case None
  with assms show ?thesis
    by (simp add: Edit_nil_image not_sent_same)
next
  case img: (Some img)
  show ?thesis
  proof (cases mask')
    case None
    with assms img show ?thesis
      by (simp add: Edit_nil_mask not_sent_same)
  next
    case (Some msk)
    have t: "trace (consume (consume st img) msk) = trace st"
      by (simp add: trace_consume)
    from assms img Some
    have "Edit c e st prompt image' mask' size' n user rt
            = finish Edit_status e (consume (consume st img) msk) req"
      by (auto simp: Edit_run sent_finish trace_consume not_sent_consume not_sent_consume2
            split: option.splits)
    with t show ?thesis by blast
  qed
qed

lemma Variation_sent:
  assumes "sent st (snd (Variation c e st image' size' n user rt)) req"
  shows "\<exists>st1. trace st1 = trace st
           \<and> Variation c e st image' size' n user rt = finish Variation_status e st1 req"
proof (cases image')
  case None
  with assms show ?thesis
    by (simp add: Variation_nil_image not_sent_same)
next
  case (Some img)
  have t: "trace (consume st img) = trace st"
    by (simp add: trace_consume)
  from assms Some
  have "Variation c e st image' size' n user rt = finish Variation_status e (consume st img) req"
    by (auto simp: Variation_run sent_finish trace_consume not_sent_consume
          split: option.splits)
  with t show ?thesis by blast
qed

lemma finish_status_outcome:
  assumes "r = finish status e st1 req" and "trace st1 = trace st"
    and "roundTrip e req = Inr resp"
  shows "if StatusCode resp = 200 then body_parsed st (snd r)
         else fst r = (None, Some (status (StatusCode resp))) \<and> \<not> body_parsed st (snd r)"
  using assms by (simp add: fst_finish_status body_parsed_finish)

lemma finish_decode_outcome:
  assumes "r = finish status e st1 req" and "roundTrip e req = Inr resp"
    and "StatusCode resp = 200"
  shows "fst r = (case jsonDecode e (respBody resp) of
                    Inl msg \<Rightarrow> (None, Some (json_error msg))
                  | Inr response \<Rightarrow> (Data response, None))"
  using assms by (simp add: fst_finish_decode)

subsection \<open>The three status switches\<close>

lemma Edit_status_eq: "Edit_status = Generate_status"
  by (rule ext) (simp add: Edit_status_def Generate_status_def)

lemma Variation_status_eq: "Variation_status = Generate_status"
  by (rule ext) (simp add: Variation_status_def Generate_status_def)

lemma status_distinct:
  "distinct (map Generate_status [400, 401, 403, 404, 429, 500, 502, 503, 504])"
  by (simp add: Generate_status_def)

lemma status_known_not_unknown:
  "errors_New ''unknown error'' \<notin> set (map Generate_status [400, 401, 403, 404, 429, 500, 502, 503, 504])"
  by (simp add: Generate_status_def)

lemma status_unknown:
  "code \<notin> set [400, 401, 403, 404, 429, 500, 502, 503, 504]
   \<Longrightarrow> Generate_status code = errors_New ''unknown error''"
  by (simp add: Generate_status_def)


lemma finish_error_no_result:
  "snd (fst (finish status e st req)) = Some err \<Longrightarrow> fst (fst (finish status e st req)) = None"
  using finish_never_both [of status e st req] by auto

lemma Generate_never_both:
  "\<not> (fst (fst (Generate c e st prompt size' n user rt)) \<noteq> None
      \<and> snd (fst (Generate c e st prompt size' n user rt)) \<noteq> None)"
  by (auto simp: Generate_run finish_error_no_result split: option.splits)

lemma Edit_never_both:
  "\<not> (fst (fst (Edit c e st prompt image' mask' size' n user rt)) \<noteq> None
      \<and> snd (fst (Edit c e st prompt image' mask' size' n user rt)) \<noteq> None)"
proof (cases image')
  case None
  then show ?thesis by (simp add: Edit_nil_image)
next
  case img: (Some img)
  show ?thesis
  proof (cases mask')
    case None
    with img show ?thesis by (simp add: Edit_nil_mask)
  next
    case (Some msk)
    with img show ?thesis
      by (auto simp: Edit_run finish_error_no_result split: option.splits)
  qed
qed

lemma Variation_never_both:
  "\<not> (fst (fst (Variation c e st image' size' n user rt)) \<noteq> None
      \<and> snd (fst (Variation c e st image' size' n user rt)) \<noteq> None)"
proof (cases image')
  case None
  then show ?thesis by (simp add: Variation_nil_image)
next
  case (Some img)
  then show ?thesis
    by (auto simp: Variation_run finish_error_no_result split: option.splits)
qed

subsection \<open>The request each operation sends\<close>

lemma Generate_sent_request:
  assumes "sent st (snd (Generate c e st prompt size' n user rt)) req"
  shows "req = request_of c (baseURL c @ ''/generations'') ''application/json''
               (JSONBody (JObject ([(''prompt'', JString prompt)]
                  @ omitempty ''n'' JNumber n
                  @ (if size' \<noteq> NilPtr
                     then [(''size'', JString (decimal (uintptr size') @ ''x'' @ decimal (uintptr size')))]
                     else [])
                  @ omitempty ''response_format'' JString rt
                  @ omitempty ''user'' JString user)))"
proof (cases "url_Parse e (baseURL c @ ''/generations'')")
  case None
  with assms show ?thesis
    by (simp add: Generate_run sent_finish)
next
  case (Some msg)
  with assms show ?thesis
    by (simp add: Generate_run not_sent_same)
qed

lemma Generate_sends:
  assumes "url_Parse e (baseURL c @ ''/generations'') = None"
  shows "sent st (snd (Generate c e st prompt size' n user rt))
           (request_of c (baseURL c @ ''/generations'') ''application/json''
               (JSONBody (JObject ([(''prompt'', JString prompt)]
                  @ omitempty ''n'' JNumber n
                  @ (if size' \<noteq> NilPtr
                     then [(''size'', JString (decimal (uintptr size') @ ''x'' @ decimal (uintptr size')))]
                     else [])
                  @ omitempty ''response_format'' JString rt
                  @ omitempty ''user'' JString user))))"
    and "network_call st (snd (Generate c e st prompt size' n user rt))"
  using assms by (simp_all add: Generate_run sent_finish network_call_finish)






subsection \<open>Two addresses in decimal\<close>

lemma decimal_size_address: "decimal 824633794848 = ''824633794848''"
  by (simp add: decimal.simps)

lemma decimal_count_address: "decimal 824633794856 = ''824633794856''"
  by (simp add: decimal.simps)

lemmas stub_simps =
  Edit_run Variation_run Generate_run sent_finish trace_consume
  optional_fields_def stub_env_def stub_state_def stub_files_def consume_def request_of_def
  NewClient_def defaultBaseURL_def defaultUserAgent_def FormDataContentType_def NewWriter_def

section \<open>The claims\<close>

text \<open>
  Claim C3. Edit called with a nil image (whatever the mask) or with a nil mask, and
  Variation called with a nil image, return the local error "image is nil" or "mask is
  nil" with a nil result, leave the state as it was, and send no request.
\<close>

theorem nil_payload_rejected_locally:
  "Edit c e st prompt None mask' size' n user rt = ((None, Some (errors_New ''image is nil'')), st)
   \<and> \<not> network_call st (snd (Edit c e st prompt None mask' size' n user rt))
   \<and> Edit c e st prompt (Some img) None size' n user rt
       = ((None, Some (errors_New ''mask is nil'')), st)
   \<and> \<not> network_call st (snd (Edit c e st prompt (Some img) None size' n user rt))
   \<and> Variation c e st None size' n user rt = ((None, Some (errors_New ''image is nil'')), st)
   \<and> \<not> network_call st (snd (Variation c e st None size' n user rt))"
  by (simp add: Edit_nil_image Edit_nil_mask Variation_nil_image network_call_same)

theorem nil_payload_rejected_locally_witness:
  "fst (Edit (NewClient ''k'') (stub_env 200 sample_body) stub_state ''A horse'' None (Some 2)
          NilPtr NilPtr NilPtr NilPtr) = (None, Some (errors_New ''image is nil''))
   \<and> fst (Edit (NewClient ''k'') (stub_env 200 sample_body) stub_state ''A horse'' (Some 1) None
          NilPtr NilPtr NilPtr NilPtr) = (None, Some (errors_New ''mask is nil''))
   \<and> trace (snd (Variation (NewClient ''k'') (stub_env 200 sample_body) stub_state None
          NilPtr NilPtr NilPtr NilPtr)) = []"
  using nil_payload_rejected_locally [of "NewClient ''k''" "stub_env 200 sample_body" stub_state
      "''A horse''" "Some 2" NilPtr NilPtr NilPtr NilPtr 1]
  by (simp add: stub_state_def)

text \<open>
  Claim C4. Let the transport answer the request an operation sent with a response.
  If the status is 200 the body is handed to the decoder; this is the only status for
  which it is. For every other status the operation returns a nil result and the error
  its status switch gives for the code, and the body is not decoded. The three switches
  are the same function; it gives nine pairwise different errors for 400, 401, 403, 404,
  429, 500, 502, 503 and 504, none of them "unknown error", and "unknown error" for every
  other code. An error is identified by its message: \<open>errors.New\<close> builds a new value at each
  call, so the message is all a caller can compare.
\<close>

theorem status_classification:
  assumes "roundTrip e req = Inr resp"
  shows
    "(sent st (snd (Generate c e st prompt size' n user rt)) req \<longrightarrow>
        (if StatusCode resp = 200
         then body_parsed st (snd (Generate c e st prompt size' n user rt))
         else fst (Generate c e st prompt size' n user rt)
                = (None, Some (Generate_status (StatusCode resp)))
              \<and> \<not> body_parsed st (snd (Generate c e st prompt size' n user rt))))
   \<and> (sent st (snd (Edit c e st prompt image' mask' size' n user rt)) req \<longrightarrow>
        (if StatusCode resp = 200
         then body_parsed st (snd (Edit c e st prompt image' mask' size' n user rt))
         else fst (Edit c e st prompt image' mask' size' n user rt)
                = (None, Some (Edit_status (StatusCode resp)))
              \<and> \<not> body_parsed st (snd (Edit c e st prompt image' mask' size' n user rt))))
   \<and> (sent st (snd (Variation c e st image' size' n user rt)) req \<longrightarrow>
        (if StatusCode resp = 200
         then body_parsed st (snd (Variation c e st image' size' n user rt))
         else fst (Variation c e st image' size' n user rt)
                = (None, Some (Variation_status (StatusCode resp)))
              \<and> \<not> body_parsed st (snd (Variation c e st image' size' n user rt))))
   \<and> Edit_status = Generate_status \<and> Variation_status = Generate_status
   \<and> distinct (map Generate_status [400, 401, 403, 404, 429, 500, 502, 503, 504])
   \<and> errors_New ''unknown error''
        \<notin> set (map Generate_status [400, 401, 403, 404, 429, 500, 502, 503, 504])
   \<and> (code \<noteq> 200 \<and> code \<notin> set [400, 401, 403, 404, 429, 500, 502, 503, 504]
        \<longrightarrow> Generate_status code = errors_New ''unknown error'')"
proof -
  have g: "sent st (snd (Generate c e st prompt size' n user rt)) req \<longrightarrow>
        (if StatusCode resp = 200
         then body_parsed st (snd (Generate c e st prompt size' n user rt))
         else fst (Generate c e st prompt size' n user rt)
                = (None, Some (Generate_status (StatusCode resp)))
              \<and> \<not> body_parsed st (snd (Generate c e st prompt size' n user rt)))"
  proof
    assume "sent st (snd (Generate c e st prompt size' n user rt)) req"
    then obtain st1 where "trace st1 = trace st"
      and "Generate c e st prompt size' n user rt = finish Generate_status e st1 req"
      using Generate_sent by blast
    then show "if StatusCode resp = 200
         then body_parsed st (snd (Generate c e st prompt size' n user rt))
         else fst (Generate c e st prompt size' n user rt)
                = (None, Some (Generate_status (StatusCode resp)))
              \<and> \<not> body_parsed st (snd (Generate c e st prompt size' n user rt))"
      using finish_status_outcome [OF _ _ assms] by blast
  qed
  have ed: "sent st (snd (Edit c e st prompt image' mask' size' n user rt)) req \<longrightarrow>
        (if StatusCode resp = 200
         then body_parsed st (snd (Edit c e st prompt image' mask' size' n user rt))
         else fst (Edit c e st prompt image' mask' size' n user rt)
                = (None, Some (Edit_status (StatusCode resp)))
              \<and> \<not> body_parsed st (snd (Edit c e st prompt image' mask' size' n user rt)))"
  proof
    assume "sent st (snd (Edit c e st prompt image' mask' size' n user rt)) req"
    then obtain st1 where "trace st1 = trace st"
      and "Edit c e st prompt image' mask' size' n user rt = finish Edit_status e st1 req"
      using Edit_sent by blast
    then show "if StatusCode resp = 200
         then body_parsed st (snd (Edit c e st prompt image' mask' size' n user rt))
         else fst (Edit c e st prompt image' mask' size' n user rt)
                = (None, Some (Edit_status (StatusCode resp)))
              \<and> \<not> body_parsed st (snd (Edit c e st prompt image' mask' size' n user rt))"
      using finish_status_outcome [OF _ _ assms] by blast
  qed
  have v: "sent st (snd (Variation c e st image' size' n user rt)) req \<longrightarrow>
        (if StatusCode resp = 200
         then body_parsed st (snd (Variation c e st image' size' n user rt))
         else fst (Variation c e st image' size' n user rt)
                = (None, Some (Variation_status (StatusCode resp)))
              \<and> \<not> body_parsed st (snd (Variation c e st image' size' n user rt)))"
  proof
    assume "sent st (snd (Variation c e st image' size' n user rt)) req"
    then obtain st1 where "trace st1 = trace st"
      and "Variation c e st image' size' n user rt = finish Variation_status e st1 req"
      using Variation_sent by blast
    then show "if StatusCode resp = 200
         then body_parsed st (snd (Variation c e st image' size' n user rt))
         else fst (Variation c e st image' size' n user rt)
                = (None, Some (Variation_status (StatusCode resp)))
              \<and> \<not> body_parsed st (snd (Variation c e st image' size' n user rt))"
      using finish_status_outcome [OF _ _ assms] by blast
  qed
  have u: "code \<noteq> 200 \<and> code \<notin> set [400, 401, 403, 404, 429, 500, 502, 503, 504]
        \<longrightarrow> Generate_status code = errors_New ''unknown error''"
    using status_unknown by blast
  from g ed v u show ?thesis
    using Edit_status_eq Variation_status_eq status_distinct status_known_not_unknown
    by blast
qed

theorem status_classification_witness:
  "fst (Generate (NewClient ''k'') (stub_env 404 ''{}'') stub_state ''A horse''
          NilPtr NilPtr NilPtr NilPtr) = (None, Some (errors_New ''not found''))
   \<and> fst (Edit (NewClient ''k'') (stub_env 429 ''{}'') stub_state ''A horse'' (Some 1) (Some 2)
          NilPtr NilPtr NilPtr NilPtr) = (None, Some (errors_New ''too many requests''))
   \<and> fst (Variation (NewClient ''k'') (stub_env 503 ''{}'') stub_state (Some 1)
          NilPtr NilPtr NilPtr NilPtr) = (None, Some (errors_New ''service unavailable''))
   \<and> \<not> body_parsed stub_state (snd (Generate (NewClient ''k'') (stub_env 404 ''{}'') stub_state
          ''A horse'' NilPtr NilPtr NilPtr NilPtr))"
proof -
  let ?c = "NewClient ''k''"
  let ?g = "request_of ?c (baseURL ?c @ ''/generations'') ''application/json''
              (JSONBody (JObject [(''prompt'', JString ''A horse'')]))"
  let ?e = "request_of ?c (baseURL ?c @ ''/edits'')
              (FormDataContentType (NewWriter ''4f1c2a''))
              (FormBody \<lparr>boundary = ''4f1c2a'',
                 parts = [FormFile ''image'' ''image_edit_original.png'' ''PNG-a'',
                          FormFile ''mask'' ''image_edit_mask.png'' ''PNG-m'',
                          FormField ''prompt'' ''A horse'', Trailer]\<rparr>)"
  let ?v = "request_of ?c (baseURL ?c @ ''/variations'')
              (FormDataContentType (NewWriter ''4f1c2a''))
              (FormBody \<lparr>boundary = ''4f1c2a'',
                 parts = [FormFile ''image'' ''image_edit_original.png'' ''PNG-a'', Trailer]\<rparr>)"
  have sg: "sent stub_state (snd (Generate ?c (stub_env 404 ''{}'') stub_state ''A horse''
              NilPtr NilPtr NilPtr NilPtr)) ?g"
    by (simp add: Generate_run sent_finish stub_env_def)
  have se: "sent stub_state (snd (Edit ?c (stub_env 429 ''{}'') stub_state ''A horse''
              (Some 1) (Some 2) NilPtr NilPtr NilPtr NilPtr)) ?e"
    by (simp add: Edit_run sent_finish trace_consume optional_fields_def stub_env_def
          stub_state_def stub_files_def consume_def)
  have sv: "sent stub_state (snd (Variation ?c (stub_env 503 ''{}'') stub_state
              (Some 1) NilPtr NilPtr NilPtr NilPtr)) ?v"
    by (simp add: Variation_run sent_finish trace_consume optional_fields_def stub_env_def
          stub_state_def stub_files_def consume_def)
  have rg: "roundTrip (stub_env 404 ''{}'') ?g = Inr \<lparr>StatusCode = 404, respBody = ''{}''\<rparr>"
    by (simp add: stub_env_def)
  have re: "roundTrip (stub_env 429 ''{}'') ?e = Inr \<lparr>StatusCode = 429, respBody = ''{}''\<rparr>"
    by (simp add: stub_env_def)
  have rv: "roundTrip (stub_env 503 ''{}'') ?v = Inr \<lparr>StatusCode = 503, respBody = ''{}''\<rparr>"
    by (simp add: stub_env_def)
  from status_classification [OF rg, where st = stub_state and c = ?c and prompt = "''A horse''"
      and size' = NilPtr and n = NilPtr and user = NilPtr and rt = NilPtr] sg
  have 1: "fst (Generate ?c (stub_env 404 ''{}'') stub_state ''A horse''
          NilPtr NilPtr NilPtr NilPtr) = (None, Some (errors_New ''not found''))
     \<and> \<not> body_parsed stub_state (snd (Generate ?c (stub_env 404 ''{}'') stub_state
          ''A horse'' NilPtr NilPtr NilPtr NilPtr))"
    by (simp add: Generate_status_def)
  from status_classification [OF re, where st = stub_state and c = ?c and prompt = "''A horse''"
      and image' = "Some 1" and mask' = "Some 2"
      and size' = NilPtr and n = NilPtr and user = NilPtr and rt = NilPtr] se
  have 2: "fst (Edit ?c (stub_env 429 ''{}'') stub_state ''A horse'' (Some 1) (Some 2)
          NilPtr NilPtr NilPtr NilPtr) = (None, Some (errors_New ''too many requests''))"
    by (simp add: Edit_status_def)
  from status_classification [OF rv, where st = stub_state and c = ?c
      and image' = "Some 1"
      and size' = NilPtr and n = NilPtr and user = NilPtr and rt = NilPtr] sv
  have 3: "fst (Variation ?c (stub_env 503 ''{}'') stub_state (Some 1)
          NilPtr NilPtr NilPtr NilPtr) = (None, Some (errors_New ''service unavailable''))"
    by (simp add: Variation_status_def)
  from 1 2 3 show ?thesis by blast
qed


text \<open>
  Claim C10. Let the transport answer the request an operation sent with status 200 and a
  body the decoder accepts as an envelope whose \<open>data\<close> is nil (absent) or empty. The
  operation returns that nil or empty sequence with a nil error: it does not require a
  result.
\<close>

theorem empty_data_returned_without_error:
  assumes "roundTrip e req = Inr resp" and "StatusCode resp = 200"
    and "jsonDecode e (respBody resp) = Inr response"
    and "Data response = None \<or> Data response = Some []"
  shows
    "(sent st (snd (Generate c e st prompt size' n user rt)) req \<longrightarrow>
        fst (Generate c e st prompt size' n user rt) = (Data response, None)
        \<and> fst (fst (Generate c e st prompt size' n user rt)) \<in> {None, Some []})
   \<and> (sent st (snd (Edit c e st prompt image' mask' size' n user rt)) req \<longrightarrow>
        fst (Edit c e st prompt image' mask' size' n user rt) = (Data response, None)
        \<and> fst (fst (Edit c e st prompt image' mask' size' n user rt)) \<in> {None, Some []})
   \<and> (sent st (snd (Variation c e st image' size' n user rt)) req \<longrightarrow>
        fst (Variation c e st image' size' n user rt) = (Data response, None)
        \<and> fst (fst (Variation c e st image' size' n user rt)) \<in> {None, Some []})"
proof -
  have g: "fst (Generate c e st prompt size' n user rt) = (Data response, None)"
    if "sent st (snd (Generate c e st prompt size' n user rt)) req"
  proof -
    from that obtain st1
      where "Generate c e st prompt size' n user rt = finish Generate_status e st1 req"
      using Generate_sent by blast
    from finish_decode_outcome [OF this assms(1,2)] assms(3) show ?thesis by simp
  qed
  have ed: "fst (Edit c e st prompt image' mask' size' n user rt) = (Data response, None)"
    if "sent st (snd (Edit c e st prompt image' mask' size' n user rt)) req"
  proof -
    from that obtain st1
      where "Edit c e st prompt image' mask' size' n user rt = finish Edit_status e st1 req"
      using Edit_sent by blast
    from finish_decode_outcome [OF this assms(1,2)] assms(3) show ?thesis by simp
  qed
  have v: "fst (Variation c e st image' size' n user rt) = (Data response, None)"
    if "sent st (snd (Variation c e st image' size' n user rt)) req"
  proof -
    from that obtain st1
      where "Variation c e st image' size' n user rt = finish Variation_status e st1 req"
      using Variation_sent by blast
    from finish_decode_outcome [OF this assms(1,2)] assms(3) show ?thesis by simp
  qed
  from g ed v assms(4) show ?thesis by auto
qed

text \<open>
  Claim C7. Whatever the inputs, the files, the transport and the decoder do, no
  operation returns a non-nil result together with a non-nil error.
\<close>

theorem never_result_and_error:
  "\<not> (fst (fst (Generate c e st prompt size' n user rt)) \<noteq> None
      \<and> snd (fst (Generate c e st prompt size' n user rt)) \<noteq> None)
   \<and> \<not> (fst (fst (Edit c e st prompt image' mask' size' n user rt)) \<noteq> None
      \<and> snd (fst (Edit c e st prompt image' mask' size' n user rt)) \<noteq> None)
   \<and> \<not> (fst (fst (Variation c e st image' size' n user rt)) \<noteq> None
      \<and> snd (fst (Variation c e st image' size' n user rt)) \<noteq> None)"
  by (intro conjI Generate_never_both Edit_never_both Variation_never_both)

theorem never_result_and_error_witness:
  "snd (fst (Generate (NewClient ''k'') (stub_env 404 ''{}'') stub_state ''A horse''
          NilPtr NilPtr NilPtr NilPtr)) = Some (errors_New ''not found'')
   \<and> fst (fst (Generate (NewClient ''k'') (stub_env 404 ''{}'') stub_state ''A horse''
          NilPtr NilPtr NilPtr NilPtr)) = None
   \<and> fst (fst (Generate (NewClient ''k'') (stub_env 200 sample_body) stub_state ''A horse''
          NilPtr NilPtr NilPtr NilPtr)) = Some [\<lparr>URL = ''http://example/x.png''\<rparr>]
   \<and> snd (fst (Generate (NewClient ''k'') (stub_env 200 sample_body) stub_state ''A horse''
          NilPtr NilPtr NilPtr NilPtr)) = None"
proof -
  have 1: "snd (fst (Generate (NewClient ''k'') (stub_env 404 ''{}'') stub_state ''A horse''
          NilPtr NilPtr NilPtr NilPtr)) = Some (errors_New ''not found'')"
    by (simp add: Generate_run finish_def stub_env_def Generate_status_def)
  have 2: "fst (fst (Generate (NewClient ''k'') (stub_env 200 sample_body) stub_state ''A horse''
          NilPtr NilPtr NilPtr NilPtr)) = Some [\<lparr>URL = ''http://example/x.png''\<rparr>]"
    by (simp add: Generate_run finish_def stub_env_def stub_Decode_def sample_body_def
          empty_data_body_def quoted_def)
  from 1 never_result_and_error [of "NewClient ''k''" "stub_env 404 ''{}''" stub_state
      "''A horse''" NilPtr NilPtr NilPtr NilPtr]
  have 3: "fst (fst (Generate (NewClient ''k'') (stub_env 404 ''{}'') stub_state ''A horse''
          NilPtr NilPtr NilPtr NilPtr)) = None"
    by simp
  from 2 never_result_and_error [of "NewClient ''k''" "stub_env 200 sample_body" stub_state
      "''A horse''" NilPtr NilPtr NilPtr NilPtr]
  have 4: "snd (fst (Generate (NewClient ''k'') (stub_env 200 sample_body) stub_state ''A horse''
          NilPtr NilPtr NilPtr NilPtr)) = None"
    by simp
  from 1 2 3 4 show ?thesis by blast
qed


theorem empty_data_returned_without_error_witness:
  "fst (Generate (NewClient ''k'') (stub_env 200 empty_data_body) stub_state ''A horse''
          NilPtr NilPtr NilPtr NilPtr) = (Some [], None)
   \<and> fst (Variation (NewClient ''k'') (stub_env 200 ''{}'') stub_state (Some 1)
          NilPtr NilPtr NilPtr NilPtr) = (None, None)"
proof -
  let ?c = "NewClient ''k''"
  let ?g = "request_of ?c (baseURL ?c @ ''/generations'') ''application/json''
              (JSONBody (JObject [(''prompt'', JString ''A horse'')]))"
  let ?v = "request_of ?c (baseURL ?c @ ''/variations'')
              (FormDataContentType (NewWriter ''4f1c2a''))
              (FormBody \<lparr>boundary = ''4f1c2a'',
                 parts = [FormFile ''image'' ''image_edit_original.png'' ''PNG-a'', Trailer]\<rparr>)"
  have sg: "sent stub_state (snd (Generate ?c (stub_env 200 empty_data_body) stub_state
              ''A horse'' NilPtr NilPtr NilPtr NilPtr)) ?g"
    by (simp add: Generate_run sent_finish stub_env_def)
  have sv: "sent stub_state (snd (Variation ?c (stub_env 200 ''{}'') stub_state
              (Some 1) NilPtr NilPtr NilPtr NilPtr)) ?v"
    by (simp add: Variation_run sent_finish trace_consume optional_fields_def stub_env_def
          stub_state_def stub_files_def consume_def)
  have rg: "roundTrip (stub_env 200 empty_data_body) ?g
              = Inr \<lparr>StatusCode = 200, respBody = empty_data_body\<rparr>"
    by (simp add: stub_env_def)
  have rv: "roundTrip (stub_env 200 ''{}'') ?v = Inr \<lparr>StatusCode = 200, respBody = ''{}''\<rparr>"
    by (simp add: stub_env_def)
  have dg: "jsonDecode (stub_env 200 empty_data_body)
              (respBody \<lparr>StatusCode = 200, respBody = empty_data_body\<rparr>)
              = Inr \<lparr>Created = 1, Data = Some []\<rparr>"
    by (simp add: stub_env_def stub_Decode_def empty_data_body_def quoted_def)
  have dv: "jsonDecode (stub_env 200 ''{}'') (respBody \<lparr>StatusCode = 200, respBody = ''{}''\<rparr>)
              = Inr \<lparr>Created = 0, Data = None\<rparr>"
    by (simp add: stub_env_def stub_Decode_def)
  from empty_data_returned_without_error [OF rg _ dg, where st = stub_state and c = ?c
      and prompt = "''A horse''" and size' = NilPtr and n = NilPtr and user = NilPtr
      and rt = NilPtr] sg
  have 1: "fst (Generate ?c (stub_env 200 empty_data_body) stub_state ''A horse''
          NilPtr NilPtr NilPtr NilPtr) = (Some [], None)"
    by simp
  from empty_data_returned_without_error [OF rv _ dv, where st = stub_state and c = ?c
      and image' = "Some 1" and size' = NilPtr and n = NilPtr and user = NilPtr
      and rt = NilPtr] sv
  have 2: "fst (Variation ?c (stub_env 200 ''{}'') stub_state (Some 1)
          NilPtr NilPtr NilPtr NilPtr) = (None, None)"
    by simp
  from 1 2 show ?thesis by blast
qed

text \<open>
  Claim C6. In the JSON body of the request Generate sends, a non-nil count is the field
  \<open>n\<close> holding the number the pointer points to (a JSON number, not a string), and each
  of count, size, user and response format that is nil has no field in the body.
\<close>

theorem Generate_body_fields:
  assumes "sent st (snd (Generate c e st prompt size' n user rt)) req"
  shows "\<exists>j. reqBody req = JSONBody j
           \<and> json_field ''n'' j = (case n of NilPtr \<Rightarrow> None | Ptr a v \<Rightarrow> Some (JNumber v))
           \<and> (size' = NilPtr \<longrightarrow> json_field ''size'' j = None)
           \<and> (user = NilPtr \<longrightarrow> json_field ''user'' j = None)
           \<and> (rt = NilPtr \<longrightarrow> json_field ''response_format'' j = None)"
  unfolding Generate_sent_request [OF assms]
  by (cases n; cases rt; cases user) (simp_all add: request_of_def)

theorem Generate_body_fields_witness:
  "\<exists>req j. sent stub_state
            (snd (Generate (NewClient ''k'') (stub_env 200 sample_body) stub_state ''A horse''
                    NilPtr (Ptr 824633794856 3) NilPtr NilPtr)) req
       \<and> reqBody req = JSONBody j
       \<and> json_field ''n'' j = Some (JNumber 3)
       \<and> json_field ''size'' j = None \<and> json_field ''user'' j = None
       \<and> json_field ''response_format'' j = None"
proof -
  let ?c = "NewClient ''k''"
  let ?g = "request_of ?c (baseURL ?c @ ''/generations'') ''application/json''
              (JSONBody (JObject [(''prompt'', JString ''A horse''), (''n'', JNumber 3)]))"
  have s: "sent stub_state (snd (Generate ?c (stub_env 200 sample_body) stub_state ''A horse''
              NilPtr (Ptr 824633794856 3) NilPtr NilPtr)) ?g"
    by (simp add: Generate_run sent_finish stub_env_def)
  from Generate_body_fields [OF s] have
    "\<exists>j. reqBody ?g = JSONBody j
       \<and> json_field ''n'' j = Some (JNumber 3)
       \<and> json_field ''size'' j = None \<and> json_field ''user'' j = None
       \<and> json_field ''response_format'' j = None"
    by simp
  with s show ?thesis by blast
qed

text \<open>
  Claim C8. Generate does not look at the prompt before sending: for every prompt, the
  empty one included, if \<open>http.NewRequest\<close> accepts the URL then a POST to
  \<open>{baseURL}/generations\<close> is sent whose body carries the prompt as given; and the only
  way Generate returns without sending is that \<open>http.NewRequest\<close> rejects the URL, which
  does not depend on the prompt.
\<close>

theorem Generate_prompt_not_validated:
  "(url_Parse e (baseURL c @ ''/generations'') = None \<longrightarrow>
      network_call st (snd (Generate c e st prompt size' n user rt))
      \<and> (\<exists>req j. sent st (snd (Generate c e st prompt size' n user rt)) req
            \<and> Method req = ''POST'' \<and> reqURL req = baseURL c @ ''/generations''
            \<and> reqBody req = JSONBody j \<and> json_field ''prompt'' j = Some (JString prompt)))
   \<and> (\<forall>msg. url_Parse e (baseURL c @ ''/generations'') = Some msg \<longrightarrow>
          Generate c e st prompt size' n user rt = ((None, Some (url_error msg)), st))"
proof (intro conjI impI allI)
  assume u: "url_Parse e (baseURL c @ ''/generations'') = None"
  from Generate_sends(2) [OF u]
  show "network_call st (snd (Generate c e st prompt size' n user rt))" .
  let ?j = "JObject ([(''prompt'', JString prompt)]
                  @ omitempty ''n'' JNumber n
                  @ (if size' \<noteq> NilPtr
                     then [(''size'', JString (decimal (uintptr size') @ ''x'' @ decimal (uintptr size')))]
                     else [])
                  @ omitempty ''response_format'' JString rt
                  @ omitempty ''user'' JString user)"
  let ?req = "request_of c (baseURL c @ ''/generations'') ''application/json'' (JSONBody ?j)"
  have "sent st (snd (Generate c e st prompt size' n user rt)) ?req"
    by (rule Generate_sends(1) [OF u])
  moreover have "Method ?req = ''POST''" and "reqURL ?req = baseURL c @ ''/generations''"
    and "reqBody ?req = JSONBody ?j" and "json_field ''prompt'' ?j = Some (JString prompt)"
    by (simp_all add: request_of_def)
  ultimately
  show "\<exists>req j. sent st (snd (Generate c e st prompt size' n user rt)) req
            \<and> Method req = ''POST'' \<and> reqURL req = baseURL c @ ''/generations''
            \<and> reqBody req = JSONBody j \<and> json_field ''prompt'' j = Some (JString prompt)"
    by blast
next
  fix msg
  assume "url_Parse e (baseURL c @ ''/generations'') = Some msg"
  then show "Generate c e st prompt size' n user rt = ((None, Some (url_error msg)), st)"
    by (simp add: Generate_run)
qed

theorem Generate_prompt_not_validated_witness:
  "network_call stub_state (snd (Generate (NewClient ''k'') (stub_env 400 ''{}'') stub_state []
      NilPtr NilPtr NilPtr NilPtr))
   \<and> (\<exists>req j. sent stub_state (snd (Generate (NewClient ''k'') (stub_env 400 ''{}'') stub_state []
                   NilPtr NilPtr NilPtr NilPtr)) req
         \<and> reqBody req = JSONBody j \<and> json_field ''prompt'' j = Some (JString []))"
proof -
  have u: "url_Parse (stub_env 400 ''{}'') (baseURL (NewClient ''k'') @ ''/generations'') = None"
    by (simp add: stub_env_def)
  from Generate_prompt_not_validated [of "stub_env 400 ''{}''" "NewClient ''k''" stub_state "[]"
      NilPtr NilPtr NilPtr NilPtr] u
  show ?thesis by blast
qed




text \<open>
  Claim C1 says that a size of 256, 512 or 1024 reaches the request as "256x256",
  "512x512" or "1024x1024". The three operations hand the pointer \<open>size\<close> itself to
  \<open>fmt.Sprintf("%dx%d", size, size)\<close>, not the int it points to, and \<open>%d\<close> prints a pointer
  as its address. The run below passes a pointer at address 824633794848 (0xc000012120)
  to the value \<open>Medium\<close>: the size field of each request is
  "824633794848x824633794848", where the int itself would have printed "512x512".
\<close>

theorem size_field_holds_the_address:
  "sent stub_state
     (snd (Generate (NewClient ''k'') (stub_env 200 sample_body) stub_state ''A horse''
             (Ptr 824633794848 Medium) NilPtr NilPtr NilPtr))
     \<lparr>Method = ''POST'', reqURL = ''https://api.openai.com/v1/images/generations'',
      Header = [(''Authorization'', ''Bearer k''), (''User-Agent'', ''go-dalle''),
                (''Content-Type'', ''application/json'')],
      reqBody = JSONBody (JObject [(''prompt'', JString ''A horse''),
                                   (''size'', JString ''824633794848x824633794848'')])\<rparr>
   \<and> sent stub_state
     (snd (Edit (NewClient ''k'') (stub_env 200 sample_body) stub_state ''A horse''
             (Some 1) (Some 2) (Ptr 824633794848 Medium) NilPtr NilPtr NilPtr))
     \<lparr>Method = ''POST'', reqURL = ''https://api.openai.com/v1/images/edits'',
      Header = [(''Authorization'', ''Bearer k''), (''User-Agent'', ''go-dalle''),
                (''Content-Type'', ''multipart/form-data; boundary=4f1c2a'')],
      reqBody = FormBody \<lparr>boundary = ''4f1c2a'',
        parts = [FormFile ''image'' ''image_edit_original.png'' ''PNG-a'',
                 FormFile ''mask'' ''image_edit_mask.png'' ''PNG-m'',
                 FormField ''prompt'' ''A horse'',
                 FormField ''size'' ''824633794848x824633794848'', Trailer]\<rparr>\<rparr>
   \<and> sent stub_state
     (snd (Variation (NewClient ''k'') (stub_env 200 sample_body) stub_state
             (Some 1) (Ptr 824633794848 Medium) NilPtr NilPtr NilPtr))
     \<lparr>Method = ''POST'', reqURL = ''https://api.openai.com/v1/images/variations'',
      Header = [(''Authorization'', ''Bearer k''), (''User-Agent'', ''go-dalle''),
                (''Content-Type'', ''multipart/form-data; boundary=4f1c2a'')],
      reqBody = FormBody \<lparr>boundary = ''4f1c2a'',
        parts = [FormFile ''image'' ''image_edit_original.png'' ''PNG-a'',
                 FormField ''size'' ''824633794848x824633794848'', Trailer]\<rparr>\<rparr>
   \<and> Medium = 512
   \<and> Sprintf_dxd (IntArg Medium) (IntArg Medium) = ''512x512''"
  by (simp add: stub_simps decimal_size_address Medium_def Sprintf_dxd_def decimal.simps)

text \<open>
  Claim C2 says that a non-nil count reaches the form of Edit and Variation as the field
  \<open>n\<close> holding the count in decimal. Both hand the pointer \<open>n\<close> itself to
  \<open>fmt.Sprintf("%d", n)\<close>, the same slip as for the size. The run below passes a pointer at
  address 824633794856 (0xc000012128) to the value 3: the field \<open>n\<close> of each form is
  "824633794856", where the int itself would have printed "3".
\<close>

theorem count_field_holds_the_address:
  "sent stub_state
     (snd (Edit (NewClient ''k'') (stub_env 200 sample_body) stub_state ''A horse''
             (Some 1) (Some 2) NilPtr (Ptr 824633794856 3) NilPtr NilPtr))
     \<lparr>Method = ''POST'', reqURL = ''https://api.openai.com/v1/images/edits'',
      Header = [(''Authorization'', ''Bearer k''), (''User-Agent'', ''go-dalle''),
                (''Content-Type'', ''multipart/form-data; boundary=4f1c2a'')],
      reqBody = FormBody \<lparr>boundary = ''4f1c2a'',
        parts = [FormFile ''image'' ''image_edit_original.png'' ''PNG-a'',
                 FormFile ''mask'' ''image_edit_mask.png'' ''PNG-m'',
                 FormField ''prompt'' ''A horse'',
                 FormField ''n'' ''824633794856'', Trailer]\<rparr>\<rparr>
   \<and> sent stub_state
     (snd (Variation (NewClient ''k'') (stub_env 200 sample_body) stub_state
             (Some 1) NilPtr (Ptr 824633794856 3) NilPtr NilPtr))
     \<lparr>Method = ''POST'', reqURL = ''https://api.openai.com/v1/images/variations'',
      Header = [(''Authorization'', ''Bearer k''), (''User-Agent'', ''go-dalle''),
                (''Content-Type'', ''multipart/form-data; boundary=4f1c2a'')],
      reqBody = FormBody \<lparr>boundary = ''4f1c2a'',
        parts = [FormFile ''image'' ''image_edit_original.png'' ''PNG-a'',
                 FormField ''n'' ''824633794856'', Trailer]\<rparr>\<rparr>
   \<and> Sprintf_d (IntArg 3) = ''3''"
  by (simp add: stub_simps decimal_count_address Sprintf_d_def decimal.simps)

end
